theory Spec2Isabelle
  imports Complex_Main "HOL-Library.Char_ord" "HOL-Library.List_Lexorder"
    "HOL-Library.Product_Lexorder"
begin

section \<open>Sales tracker: data model\<close>

text \<open>
  The embedding follows \<^verbatim>\<open>src/app.py\<close>. A pandas DataFrame is the list of its rows, in
  row order. An amount is the rational number that its float64 value denotes. The column
  sums of the period aggregation are float64 sums, rounded after every addition (see the
  section on float64 addition); the business metrics and the product of \<^verbatim>\<open>add_transaction\<close>
  are written with exact arithmetic. A calendar date is its proleptic
  Gregorian ordinal (\<^verbatim>\<open>date.toordinal()\<close>; day 1 is 0001-01-01, a Monday), the way a
  pandas timestamp is a count from an epoch: comparison is comparison of ordinals and
  \<^verbatim>\<open>timedelta(days=n)\<close> is integer arithmetic.
\<close>

type_synonym date = int

record transaction =
  date :: date
  product_name :: string
  price :: rat
  quantity :: int
  seller :: string
  total_amount :: rat

type_synonym dataframe = "transaction list"

datatype error = UnboundLocalError | ValueError

subsection \<open>The calendar of \<^verbatim>\<open>datetime\<close>\<close>

definition is_leap :: "int \<Rightarrow> bool" where
  "is_leap y = (y mod 4 = 0 \<and> (y mod 100 \<noteq> 0 \<or> y mod 400 = 0))"

definition days_before_year :: "int \<Rightarrow> int" where
  "days_before_year year = (let y = year - 1 in y * 365 + y div 4 - y div 100 + y div 400)"

definition DAYS_BEFORE_MONTH :: "int list" where
  "DAYS_BEFORE_MONTH = [-1, 0, 31, 59, 90, 120, 151, 181, 212, 243, 273, 304, 334]"

definition DAYS_IN_MONTH :: "int list" where
  "DAYS_IN_MONTH = [-1, 31, 28, 31, 30, 31, 30, 31, 31, 30, 31, 30, 31]"

definition days_before_month :: "int \<Rightarrow> int \<Rightarrow> int" where
  "days_before_month y m =
     DAYS_BEFORE_MONTH ! nat m + (if m > 2 \<and> is_leap y then 1 else 0)"

text \<open>\<^verbatim>\<open>date(y, m, d).toordinal()\<close>, for a month between 1 and 12.\<close>

definition ymd2ord :: "int \<Rightarrow> int \<Rightarrow> int \<Rightarrow> date" where
  "ymd2ord y m d = days_before_year y + days_before_month y m + d"

text \<open>\<^verbatim>\<open>date.fromordinal(n)\<close> as (year, month, day), for \<open>n \<ge> 1\<close>.\<close>

definition ord2ymd :: "date \<Rightarrow> int \<times> int \<times> int" where
  "ord2ymd n0 =
     (let n = n0 - 1;
          n400 = n div 146097; n = n mod 146097;
          n100 = n div 36524; n = n mod 36524;
          n4 = n div 1461; n = n mod 1461;
          n1 = n div 365; n = n mod 365;
          year = n400 * 400 + 1 + n100 * 100 + n4 * 4 + n1
      in if n1 = 4 \<or> n100 = 4 then (year - 1, 12, 31)
         else
           let leapyear = (n1 = 3 \<and> (n4 \<noteq> 24 \<or> n100 = 3));
               month = (n + 50) div 32;
               preceding = DAYS_BEFORE_MONTH ! nat month
                             + (if month > 2 \<and> leapyear then 1 else 0)
           in if preceding > n
              then let month' = month - 1;
                       preceding' = preceding - (DAYS_IN_MONTH ! nat month'
                                      + (if month' = 2 \<and> leapyear then 1 else 0))
                   in (year, month', n - preceding' + 1)
              else (year, month, n - preceding + 1))"

definition year_of :: "date \<Rightarrow> int" where
  "year_of d = fst (ord2ymd d)"

definition month_of :: "date \<Rightarrow> int" where
  "month_of d = fst (snd (ord2ymd d))"

text \<open>\<^verbatim>\<open>date.weekday()\<close>: Monday is 0.\<close>

definition weekday :: "date \<Rightarrow> int" where
  "weekday d = (d + 6) mod 7"

section \<open>The transaction store\<close>

text \<open>
  \<^verbatim>\<open>st.session_state.sales_data\<close> is passed explicitly. \<^verbatim>\<open>add_transaction\<close> appends
  one row whose \<^verbatim>\<open>total_amount\<close> is \<^verbatim>\<open>price * quantity\<close>.
\<close>

definition add_transaction ::
  "dataframe \<Rightarrow> date \<Rightarrow> string \<Rightarrow> rat \<Rightarrow> int \<Rightarrow> string \<Rightarrow> dataframe" where
  "add_transaction sales_data d pn p q s =
     sales_data @ [\<lparr>date = d, product_name = pn, price = p, quantity = q, seller = s,
                    total_amount = p * of_int q\<rparr>]"

text \<open>The store starts empty and changes only through \<^verbatim>\<open>add_transaction\<close>.\<close>

inductive reachable :: "dataframe \<Rightarrow> bool" where
  init: "reachable []"
| step: "reachable s \<Longrightarrow> reachable (add_transaction s d pn p q sl)"

section \<open>Filter\<close>

text \<open>
  \<^verbatim>\<open>if start_date:\<close> tests truthiness. A date object is always truthy, so for a date
  argument only \<^verbatim>\<open>None\<close> is falsy; for the seller string the empty string is falsy too.
\<close>

definition truthy_str :: "string option \<Rightarrow> bool" where
  "truthy_str s = (case s of None \<Rightarrow> False | Some v \<Rightarrow> v \<noteq> [])"

definition get_filtered_data ::
  "dataframe \<Rightarrow> date option \<Rightarrow> date option \<Rightarrow> string option \<Rightarrow> dataframe" where
  "get_filtered_data sales_data start_date end_date sel =
     (if sales_data = [] then sales_data
      else
        let data = sales_data;
            data = (case start_date of None \<Rightarrow> data
                    | Some sd \<Rightarrow> filter (\<lambda>r. date r \<ge> sd) data);
            data = (case end_date of None \<Rightarrow> data
                    | Some ed \<Rightarrow> filter (\<lambda>r. date r \<le> ed) data);
            data = (if truthy_str sel \<and> sel \<noteq> Some ''All''
                    then filter (\<lambda>r. Some (seller r) = sel) data else data)
        in data)"

section \<open>Grouping\<close>

text \<open>
  \<^verbatim>\<open>groupby(key)\<close> with the default \<^verbatim>\<open>sort=True\<close>: one group per distinct key, in
  ascending key order, each holding the rows with that key in row order.
\<close>

definition groupby :: "('r \<Rightarrow> 'k::linorder) \<Rightarrow> 'r list \<Rightarrow> ('k \<times> 'r list) list" where
  "groupby key rs = map (\<lambda>k. (k, filter (\<lambda>r. key r = k) rs)) (sort (remdups (map key rs)))"

text \<open>\<^verbatim>\<open>groupby(key)[col].sum()\<close>: the series of per-group sums, indexed by key.\<close>

definition groupby_sum ::
  "('r \<Rightarrow> 'k::linorder) \<Rightarrow> ('r \<Rightarrow> 'v::comm_monoid_add) \<Rightarrow> 'r list \<Rightarrow> ('k \<times> 'v) list" where
  "groupby_sum key col rs = map (\<lambda>(k, g). (k, sum_list (map col g))) (groupby key rs)"

text \<open>
  \<^verbatim>\<open>Series.idxmax()\<close>: the label of the first occurrence of the maximum; on an empty
  series it raises \<^verbatim>\<open>ValueError\<close>. \<^verbatim>\<open>Series.max()\<close> is the maximum value.
\<close>

fun idxmax :: "('k \<times> 'v::linorder) list \<Rightarrow> error + 'k" where
  "idxmax [] = Inl ValueError"
| "idxmax (g # gs) = Inr (fst (foldl (\<lambda>b x. if snd b < snd x then x else b) g gs))"

fun series_max :: "('k \<times> 'v::linorder) list \<Rightarrow> 'v option" where
  "series_max [] = None"
| "series_max (g # gs) = Some (foldl max (snd g) (map snd gs))"

section \<open>Float64 addition\<close>

text \<open>
  IEEE 754 binary64 with the default rounding: the exact result is rounded to the nearest
  value with a 53-bit significand, ties to the even significand. Overflow and subnormal
  numbers are left out (the exponent is unbounded), which no amount of a shop reaches.
  \<open>binade\<close> finds the exponent \<open>e\<close> with \<open>2^52 \<le> x / 2^e < 2^53\<close>; its first
  argument bounds the search and covers the exponent range of binary64.
\<close>

definition round_half_even :: "rat \<Rightarrow> int" where
  "round_half_even x =
     (let f = \<lfloor>x\<rfloor>; d = x - of_int f
      in if d < 1 / 2 then f else if 1 / 2 < d then f + 1 else if even f then f else f + 1)"

fun binade :: "nat \<Rightarrow> rat \<Rightarrow> int \<Rightarrow> int" where
  "binade n x e =
     (if n = 0 then e
      else if x < 2 ^ 52 then binade (n - 1) (x * 2) (e - 1)
      else if 2 ^ 53 \<le> x then binade (n - 1) (x / 2) (e + 1)
      else e)"

declare binade.simps [simp del]

definition round64 :: "rat \<Rightarrow> rat" where
  "round64 x =
     (if x = 0 then 0
      else let e = binade 2200 \<bar>x\<bar> 0;
               m = round_half_even (\<bar>x\<bar> * 2 powi (- e))
           in sgn x * of_int m * 2 powi e)"

text \<open>\<^verbatim>\<open>a + b\<close> on floats, and the sum of a float column, added in row order.\<close>

definition fadd :: "rat \<Rightarrow> rat \<Rightarrow> rat" where
  "fadd a b = round64 (a + b)"

definition fsum :: "rat list \<Rightarrow> rat" where
  "fsum xs = foldl fadd 0 xs"

section \<open>Period aggregation\<close>

datatype bucket_key = Day date | Week date | Month int int

record bucket =
  key :: bucket_key
  b_total_amount :: rat
  b_quantity :: int
  transaction_count :: nat

text \<open>
  \<^verbatim>\<open>.agg({'total_amount': 'sum', 'quantity': 'sum', 'product_name': 'count'})\<close> followed
  by \<^verbatim>\<open>reset_index()\<close>: one row per group, in group order. The amounts are floats
  and their sum is a float sum; the quantities are integers.
\<close>

definition agg :: "('k \<Rightarrow> bucket_key) \<Rightarrow> ('k \<times> dataframe) list \<Rightarrow> bucket list" where
  "agg mk groups =
     map (\<lambda>(k, g). \<lparr>key = mk k,
                     b_total_amount = fsum (map total_amount g),
                     b_quantity = sum_list (map quantity g),
                     transaction_count = length g\<rparr>) groups"

text \<open>
  \<^verbatim>\<open>to_period('W')\<close> is the Monday-to-Sunday week holding the date, identified here by
  its Monday; \<^verbatim>\<open>to_period('M')\<close> is the pair of year and month.
\<close>

definition week_start :: "date \<Rightarrow> date" where
  "week_start d = d - weekday d"

definition year_month :: "date \<Rightarrow> int \<times> int" where
  "year_month d = (year_of d, month_of d)"

text \<open>
  The three branches assign \<^verbatim>\<open>grouped\<close>; for any other period it stays unbound and the
  final \<^verbatim>\<open>grouped.reset_index()\<close> raises \<^verbatim>\<open>UnboundLocalError\<close>.
\<close>

definition calculate_analytics :: "dataframe \<Rightarrow> string \<Rightarrow> error + bucket list" where
  "calculate_analytics data period =
     (if data = [] then Inr []
      else if period = ''daily'' then Inr (agg Day (groupby date data))
      else if period = ''weekly'' then Inr (agg Week (groupby (\<lambda>r. week_start (date r)) data))
      else if period = ''monthly''
        then Inr (agg (\<lambda>(y, m). Month y m) (groupby (\<lambda>r. year_month (date r)) data))
      else Inl UnboundLocalError)"

section \<open>Business metrics\<close>

record metrics =
  total_revenue :: rat
  total_transactions :: nat
  avg_order_value :: rat
  total_quantity :: int
  top_seller :: string
  top_seller_revenue :: rat
  top_product :: string
  top_product_qty :: int
  daily_avg :: rat
  growth_rate :: rat
  monthly_revenue :: rat
  monthly_transactions :: nat

text \<open>
  The evaluation instant \<^verbatim>\<open>datetime.now()\<close> enters as the parameter \<open>today\<close>, the
  ordinal of \<^verbatim>\<open>datetime.now().date()\<close>; \<^verbatim>\<open>datetime.now().month\<close> is its month.
\<close>

definition week_ago :: "date \<Rightarrow> date" where
  "week_ago today = today - 7"

definition recent_data :: "date \<Rightarrow> dataframe \<Rightarrow> dataframe" where
  "recent_data today data = filter (\<lambda>r. date r \<ge> week_ago today) data"

definition last_week_start :: "date \<Rightarrow> date" where
  "last_week_start today = week_ago today - 7"

definition last_week_data :: "date \<Rightarrow> dataframe \<Rightarrow> dataframe" where
  "last_week_data today data =
     filter (\<lambda>r. date r \<ge> last_week_start today \<and> date r < week_ago today) data"

definition this_week_revenue :: "date \<Rightarrow> dataframe \<Rightarrow> rat" where
  "this_week_revenue today data = sum_list (map total_amount (recent_data today data))"

definition last_week_revenue :: "date \<Rightarrow> dataframe \<Rightarrow> rat" where
  "last_week_revenue today data = sum_list (map total_amount (last_week_data today data))"

definition current_month :: "date \<Rightarrow> dataframe \<Rightarrow> dataframe" where
  "current_month today data = filter (\<lambda>r. month_of (date r) = month_of today) data"

definition calculate_business_metrics :: "date \<Rightarrow> dataframe \<Rightarrow> error + metrics option" where
  "calculate_business_metrics today data =
     (if data = [] then Inr None
      else
        let seller_totals = groupby_sum seller total_amount data;
            product_totals = groupby_sum product_name quantity data
        in case idxmax seller_totals of Inl e \<Rightarrow> Inl e
           | Inr ts \<Rightarrow>
          (case idxmax product_totals of Inl e \<Rightarrow> Inl e
           | Inr tp \<Rightarrow>
             Inr (Some \<lparr>
               total_revenue = sum_list (map total_amount data),
               total_transactions = length data,
               avg_order_value = sum_list (map total_amount data) / of_nat (length data),
               total_quantity = sum_list (map quantity data),
               top_seller = ts,
               top_seller_revenue = (case series_max seller_totals of Some v \<Rightarrow> v | None \<Rightarrow> 0),
               top_product = tp,
               top_product_qty = (case series_max product_totals of Some v \<Rightarrow> v | None \<Rightarrow> 0),
               daily_avg = (if recent_data today data \<noteq> []
                            then sum_list (map total_amount (recent_data today data)) / 7
                            else 0),
               growth_rate = (if last_week_revenue today data > 0
                              then (this_week_revenue today data - last_week_revenue today data)
                                     / last_week_revenue today data * 100
                              else 0),
               monthly_revenue = sum_list (map total_amount (current_month today data)),
               monthly_transactions = length (current_month today data)\<rparr>)))"

section \<open>Sample data\<close>

text \<open>
  The three sales of the scenario, entered through \<^verbatim>\<open>add_transaction\<close>: two units of
  Shirt at 100 by A and one Saree at 500 by B on 2024-01-01, one Shirt at 100 by A on
  2024-01-08.
\<close>

definition first_sale :: transaction where
  "first_sale = \<lparr>date = ymd2ord 2024 1 1, product_name = ''Shirt'', price = 100,
                  quantity = 2, seller = ''A'', total_amount = 200\<rparr>"

definition scenario :: dataframe where
  "scenario =
     add_transaction
       (add_transaction
          (add_transaction [] (ymd2ord 2024 1 1) ''Shirt'' 100 2 ''A'')
          (ymd2ord 2024 1 1) ''Saree'' 500 1 ''B'')
       (ymd2ord 2024 1 8) ''Shirt'' 100 1 ''A''"


text \<open>
  An evaluation day, 2024-01-15, with a sale dated the day after it, a sale dated seven
  days before it, and a pair of sales dated ten days before and one day after it.
\<close>

definition eval_day :: date where
  "eval_day = ymd2ord 2024 1 15"

definition future_sale :: dataframe where
  "future_sale = add_transaction [] (ymd2ord 2024 1 16) ''Shirt'' 140 1 ''A''"

definition week_old_sale :: dataframe where
  "week_old_sale = add_transaction [] (ymd2ord 2024 1 8) ''Shirt'' 70 1 ''A''"

definition growth_sales :: dataframe where
  "growth_sales =
     add_transaction
       (add_transaction [] (ymd2ord 2024 1 5) ''Shirt'' 100 1 ''A'')
       (ymd2ord 2024 1 16) ''Saree'' 150 1 ''B''"


section \<open>Totals per seller and per product\<close>



section \<open>Auxiliary facts\<close>

lemmas calendar_defs =
  ymd2ord_def ord2ymd_def days_before_year_def days_before_month_def DAYS_BEFORE_MONTH_def
  DAYS_IN_MONTH_def is_leap_def year_of_def month_of_def weekday_def Let_def

lemma first_sale_added:
  "add_transaction [] (ymd2ord 2024 1 1) ''Shirt'' 100 2 ''A'' = [first_sale]"
  by (simp add: add_transaction_def first_sale_def)

lemma groupby_nonempty: "rs \<noteq> [] \<Longrightarrow> groupby k rs \<noteq> []"
proof
  assume a: "rs \<noteq> []" and "groupby k rs = []"
  then have "sort (remdups (map k rs)) = []" by (simp add: groupby_def)
  then have "set (sort (remdups (map k rs))) = {}" by simp
  then show False using a by simp
qed

lemma groupby_sum_nonempty: "rs \<noteq> [] \<Longrightarrow> groupby_sum k c rs \<noteq> []"
  by (simp add: groupby_sum_def groupby_nonempty)

lemma idxmax_defined: "gs \<noteq> [] \<Longrightarrow> \<exists>k. idxmax gs = Inr k"
  by (cases gs) auto

text \<open>On a non-empty frame the metrics are computed: no branch raises.\<close>

lemma metrics_defined:
  assumes "data \<noteq> []"
  shows "\<exists>m. calculate_business_metrics today data = Inr (Some m)"
proof -
  obtain ts where ts: "idxmax (groupby_sum seller total_amount data) = Inr ts"
    using idxmax_defined [OF groupby_sum_nonempty [OF assms]] by blast
  obtain tp where tp: "idxmax (groupby_sum product_name quantity data) = Inr tp"
    using idxmax_defined [OF groupby_sum_nonempty [OF assms]] by blast
  show ?thesis
    using assms ts tp by (simp add: calculate_business_metrics_def Let_def)
qed

text \<open>The fields of a computed result, read off the definition.\<close>

lemma metrics_fields:
  assumes "calculate_business_metrics today data = Inr (Some m)"
  shows "data \<noteq> []"
    and "total_revenue m = sum_list (map total_amount data)"
    and "total_transactions m = length data"
    and "avg_order_value m = sum_list (map total_amount data) / of_nat (length data)"
    and "total_quantity m = sum_list (map quantity data)"
    and "idxmax (groupby_sum seller total_amount data) = Inr (top_seller m)"
    and "series_max (groupby_sum seller total_amount data) = Some (top_seller_revenue m)"
    and "idxmax (groupby_sum product_name quantity data) = Inr (top_product m)"
    and "series_max (groupby_sum product_name quantity data) = Some (top_product_qty m)"
    and "daily_avg m = (if recent_data today data \<noteq> []
                        then sum_list (map total_amount (recent_data today data)) / 7 else 0)"
    and "growth_rate m = (if last_week_revenue today data > 0
                          then (this_week_revenue today data - last_week_revenue today data)
                                 / last_week_revenue today data * 100
                          else 0)"
    and "monthly_revenue m = sum_list (map total_amount (current_month today data))"
    and "monthly_transactions m = length (current_month today data)"
  using assms
  by (auto simp: calculate_business_metrics_def Let_def split: if_splits sum.splits
       elim!: idxmax.elims)

section \<open>The filter\<close>

text \<open>
  C2, as the claim states it, fails: the seller test is \<^verbatim>\<open>if seller and seller != "All"\<close>,
  so the empty string, which is a set argument different from "All", filters nothing. With
  the store holding one sale by seller A and the seller argument \<^verbatim>\<open>""\<close>, the sale is in
  the output although its seller is not equal to the argument.
\<close>

theorem get_filtered_data_empty_seller_counterexample:
  "first_sale \<in> set (get_filtered_data [first_sale] None None (Some ''''))
   \<and> \<not> (Some '''' = (None :: string option) \<or> Some '''' = Some ''All''
          \<or> Some (seller first_sale) = Some '''')"
  by (simp add: get_filtered_data_def truthy_str_def first_sale_def)

text \<open>
  C2, amended: for every store and every combination of the optional start date, end date
  and seller, the output is the store restricted, in order, to the records with (start
  unset or date at or after start) and (end unset or date at or before end) and (seller
  unset, or the empty string, or "All", or equal to the record's seller). Both date bounds
  are inclusive, and the function returns a frame for every argument combination.
\<close>

theorem get_filtered_data_filter:
  "get_filtered_data store start_date end_date sel =
     filter (\<lambda>r. (case start_date of None \<Rightarrow> True | Some sd \<Rightarrow> date r \<ge> sd)
              \<and> (case end_date of None \<Rightarrow> True | Some ed \<Rightarrow> date r \<le> ed)
              \<and> (sel = None \<or> sel = Some '''' \<or> sel = Some ''All''
                   \<or> Some (seller r) = sel)) store"
  by (cases start_date; cases end_date; cases sel)
     (auto simp: get_filtered_data_def truthy_str_def Let_def intro: filter_cong)

section \<open>The store invariant\<close>

text \<open>
  C3: every record of a store reached by appends has \<open>total_amount = price * quantity\<close>;
  hence for every non-empty collection of records drawn from it the sum of
  \<open>total_amount\<close> is the sum of \<open>price * quantity\<close>; and an append keeps the records
  already stored, adding one whose \<open>total_amount\<close> is the product of the given price and
  quantity.
\<close>

theorem store_total_amount_invariant:
  assumes "reachable store"
  shows "(\<forall>r \<in> set store. total_amount r = price r * of_int (quantity r))
       \<and> (\<forall>rs. rs \<noteq> [] \<and> set rs \<subseteq> set store \<longrightarrow>
            sum_list (map total_amount rs)
              = sum_list (map (\<lambda>r. price r * of_int (quantity r)) rs))
       \<and> (\<forall>d pn p q sl. \<exists>r. add_transaction store d pn p q sl = store @ [r]
              \<and> total_amount r = p * of_int q \<and> price r = p \<and> quantity r = q)"
proof -
  have inv: "\<forall>r \<in> set store. total_amount r = price r * of_int (quantity r)"
    using assms by (induction rule: reachable.induct) (auto simp: add_transaction_def)
  have "sum_list (map total_amount rs) = sum_list (map (\<lambda>r. price r * of_int (quantity r)) rs)"
    if "set rs \<subseteq> set store" for rs
    using that inv by (induction rs) auto
  then show ?thesis using inv by (simp add: add_transaction_def)
qed

theorem store_total_amount_invariant_witness:
  "reachable scenario \<and> scenario \<noteq> [] \<and> set scenario \<subseteq> set scenario
   \<and> sum_list (map total_amount scenario)
       = sum_list (map (\<lambda>r. price r * of_int (quantity r)) scenario)"
proof -
  have r: "reachable scenario"
    unfolding scenario_def by (intro reachable.step reachable.init)
  have ne: "scenario \<noteq> []"
    by (simp add: scenario_def add_transaction_def)
  show ?thesis
    using store_total_amount_invariant [OF r] r ne by blast
qed

section \<open>Empty input and the period argument\<close>

text \<open>
  C7: on the empty record set \<^verbatim>\<open>calculate_business_metrics\<close> returns the empty marker
  (here \<open>None\<close>, the empty dict) without raising, and \<^verbatim>\<open>calculate_analytics\<close> returns an
  empty frame without raising, whatever the period.
\<close>

theorem empty_input_no_data:
  "calculate_business_metrics today [] = Inr None
   \<and> (\<forall>period. calculate_analytics [] period = Inr [])"
  by (simp add: calculate_business_metrics_def calculate_analytics_def)

text \<open>
  C10: \<^verbatim>\<open>calculate_analytics\<close> returns a frame for the periods daily, weekly and monthly;
  on the empty record set it returns the empty frame for any period string; on a non-empty
  record set with any other period string it raises, the grouped result being unbound.
\<close>

theorem calculate_analytics_periods:
  "calculate_analytics [] period = Inr []
   \<and> (data \<noteq> [] \<longrightarrow> period \<notin> {''daily'', ''weekly'', ''monthly''}
        \<longrightarrow> calculate_analytics data period = Inl UnboundLocalError)
   \<and> (period \<in> {''daily'', ''weekly'', ''monthly''}
        \<longrightarrow> (\<exists>bs. calculate_analytics data period = Inr bs))"
  by (auto simp: calculate_analytics_def)

theorem calculate_analytics_periods_witness:
  "[first_sale] \<noteq> [] \<and> ''yearly'' \<notin> {''daily'', ''weekly'', ''monthly''}
   \<and> calculate_analytics [] ''yearly'' = Inr []
   \<and> calculate_analytics [first_sale] ''yearly'' = Inl UnboundLocalError
   \<and> ''weekly'' \<in> {''daily'', ''weekly'', ''monthly''}
   \<and> (\<exists>bs. calculate_analytics [first_sale] ''weekly'' = Inr bs)"
  using calculate_analytics_periods [of "''yearly''" "[first_sale]"]
        calculate_analytics_periods [of "''weekly''" "[first_sale]"]
  by simp

section \<open>Basic metrics\<close>

lemma scenario_rows:
  "scenario =
     [\<lparr>date = 738886, product_name = ''Shirt'', price = 100, quantity = 2, seller = ''A'',
        total_amount = 200\<rparr>,
      \<lparr>date = 738886, product_name = ''Saree'', price = 500, quantity = 1, seller = ''B'',
        total_amount = 500\<rparr>,
      \<lparr>date = 738893, product_name = ''Shirt'', price = 100, quantity = 1, seller = ''A'',
        total_amount = 100\<rparr>]"
  by (simp add: scenario_def add_transaction_def calendar_defs)

lemma scenario_seller_totals:
  "groupby_sum seller total_amount scenario = [(''A'', 300), (''B'', 500)]"
  by (simp add: scenario_rows groupby_sum_def groupby_def)

text \<open>
  C1: on the three sales of the scenario \<^verbatim>\<open>calculate_business_metrics\<close> returns
  \<open>total_revenue = 800\<close>, \<open>total_transactions = 3\<close>, \<open>top_seller = B\<close> and
  \<open>top_seller_revenue = 500\<close>, whatever the evaluation day; and on every non-empty record
  set it returns metrics whose \<open>total_revenue\<close> is the sum of \<open>total_amount\<close>, whose
  \<open>total_transactions\<close> is the number of records, whose \<open>avg_order_value\<close> is the mean
  of \<open>total_amount\<close> and whose \<open>total_quantity\<close> is the sum of \<open>quantity\<close>.
\<close>

theorem basic_metrics:
  "(\<exists>m. calculate_business_metrics today scenario = Inr (Some m)
        \<and> total_revenue m = 800 \<and> total_transactions m = 3
        \<and> top_seller m = ''B'' \<and> top_seller_revenue m = 500)
   \<and> (data \<noteq> [] \<longrightarrow>
        (\<exists>m. calculate_business_metrics today data = Inr (Some m)
           \<and> total_revenue m = sum_list (map total_amount data)
           \<and> total_transactions m = length data
           \<and> avg_order_value m = sum_list (map total_amount data) / of_nat (length data)
           \<and> total_quantity m = sum_list (map quantity data)))"
proof -
  have gen: "\<exists>m. calculate_business_metrics today d = Inr (Some m)
           \<and> total_revenue m = sum_list (map total_amount d)
           \<and> total_transactions m = length d
           \<and> avg_order_value m = sum_list (map total_amount d) / of_nat (length d)
           \<and> total_quantity m = sum_list (map quantity d)
           \<and> idxmax (groupby_sum seller total_amount d) = Inr (top_seller m)
           \<and> series_max (groupby_sum seller total_amount d) = Some (top_seller_revenue m)"
    if d: "d \<noteq> []" for d
  proof -
    obtain m where m: "calculate_business_metrics today d = Inr (Some m)"
      using metrics_defined [OF d] by blast
    show ?thesis
      using m metrics_fields(2-7) [OF m] by simp
  qed
  have ne: "scenario \<noteq> []" by (simp add: scenario_rows)
  obtain m where m: "calculate_business_metrics today scenario = Inr (Some m)"
    "total_revenue m = sum_list (map total_amount scenario)"
    "total_transactions m = length scenario"
    "idxmax (groupby_sum seller total_amount scenario) = Inr (top_seller m)"
    "series_max (groupby_sum seller total_amount scenario) = Some (top_seller_revenue m)"
    using gen [OF ne] by blast
  have "total_revenue m = 800" "total_transactions m = 3"
    using m(2,3) by (simp_all add: scenario_rows)
  moreover have "top_seller m = ''B''" "top_seller_revenue m = 500"
    using m(4,5) by (simp_all add: scenario_seller_totals)
  ultimately show ?thesis using m(1) gen by blast
qed

theorem basic_metrics_witness:
  "[first_sale] \<noteq> []
   \<and> (\<exists>m. calculate_business_metrics eval_day [first_sale] = Inr (Some m)
          \<and> total_revenue m = 200 \<and> total_transactions m = 1
          \<and> avg_order_value m = 200 \<and> total_quantity m = 2)"
proof -
  have "[first_sale] \<noteq> [] \<longrightarrow>
        (\<exists>m. calculate_business_metrics eval_day [first_sale] = Inr (Some m)
           \<and> total_revenue m = sum_list (map total_amount [first_sale])
           \<and> total_transactions m = length [first_sale]
           \<and> avg_order_value m
               = sum_list (map total_amount [first_sale]) / of_nat (length [first_sale])
           \<and> total_quantity m = sum_list (map quantity [first_sale]))"
    using basic_metrics [of eval_day "[first_sale]"] by (rule conjunct2)
  then show ?thesis by (simp add: first_sale_def)
qed

section \<open>Figures of the current month\<close>

lemma today_2025: "ymd2ord 2025 1 15 = 739266" "month_of 739266 = 1" "year_of 739266 = 2025"
  "month_of 738886 = 1" "month_of 738893 = 1" "year_of 738886 = 2024" "year_of 738893 = 2024"
  by (simp_all add: calendar_defs)

text \<open>
  C6: on every non-empty record set \<open>monthly_revenue\<close> and \<open>monthly_transactions\<close> are
  the sum of \<open>total_amount\<close> and the number of exactly the records whose month number
  is the month number of the evaluation day; the year takes no part in the test, so a
  record of another year in the same month is counted (the witness evaluates sales of
  January 2024 on a day in January 2025).
\<close>

theorem monthly_figures_by_month_number:
  assumes "data \<noteq> []"
  shows "\<exists>m. calculate_business_metrics today data = Inr (Some m)
           \<and> monthly_revenue m
               = sum_list (map total_amount
                   (filter (\<lambda>r. month_of (date r) = month_of today) data))
           \<and> monthly_transactions m
               = length (filter (\<lambda>r. month_of (date r) = month_of today) data)"
proof -
  obtain m where m: "calculate_business_metrics today data = Inr (Some m)"
    using metrics_defined [OF assms] by blast
  show ?thesis
    using m metrics_fields(12,13) [OF m] by (simp add: current_month_def)
qed

theorem monthly_figures_by_month_number_witness:
  "scenario \<noteq> []
   \<and> year_of (ymd2ord 2025 1 15) = 2025
   \<and> map (\<lambda>r. (year_of (date r), month_of (date r))) scenario = [(2024, 1), (2024, 1), (2024, 1)]
   \<and> (\<exists>m. calculate_business_metrics (ymd2ord 2025 1 15) scenario = Inr (Some m)
           \<and> monthly_revenue m = 800 \<and> monthly_transactions m = 3)"
proof -
  have ne: "scenario \<noteq> []" by (simp add: scenario_rows)
  obtain m where m: "calculate_business_metrics (ymd2ord 2025 1 15) scenario = Inr (Some m)"
    "monthly_revenue m = sum_list (map total_amount
        (filter (\<lambda>r. month_of (date r) = month_of (ymd2ord 2025 1 15)) scenario))"
    "monthly_transactions m
       = length (filter (\<lambda>r. month_of (date r) = month_of (ymd2ord 2025 1 15)) scenario)"
    using monthly_figures_by_month_number [OF ne, of "ymd2ord 2025 1 15"] by blast
  have "monthly_revenue m = 800" "monthly_transactions m = 3"
    using m(2,3) by (simp_all add: scenario_rows today_2025)
  moreover have "year_of (ymd2ord 2025 1 15) = 2025"
    by (simp add: today_2025)
  moreover have "map (\<lambda>r. (year_of (date r), month_of (date r))) scenario
                   = [(2024, 1), (2024, 1), (2024, 1)]"
    by (simp add: scenario_rows today_2025)
  ultimately show ?thesis using ne m(1) by blast
qed

section \<open>Daily buckets\<close>



lemma groupby_keys: "map fst (groupby k rs) = sort (remdups (map k rs))"
  by (simp add: groupby_def comp_def)










section \<open>Top seller and top product on ties\<close>











section \<open>The trailing windows\<close>

text \<open>
  What the code computes on every non-empty record set: \<open>daily_avg\<close> is a seventh of
  the revenue of the records dated at or after the day seven days before the evaluation
  day, with no upper bound on the date; \<open>growth_rate\<close>, for amounts that are not
  negative, is 0 when \<open>last_week_revenue\<close> is 0 and the percentage change otherwise.
\<close>

lemma eval_day_ord: "eval_day = 738900"
  by (simp add: eval_day_def calendar_defs)

lemma future_sale_rows:
  "future_sale = [\<lparr>date = 738901, product_name = ''Shirt'', price = 140, quantity = 1,
                    seller = ''A'', total_amount = 140\<rparr>]"
  by (simp add: future_sale_def add_transaction_def calendar_defs)

lemma week_old_sale_rows:
  "week_old_sale = [\<lparr>date = 738893, product_name = ''Shirt'', price = 70, quantity = 1,
                      seller = ''A'', total_amount = 70\<rparr>]"
  by (simp add: week_old_sale_def add_transaction_def calendar_defs)

lemma growth_sales_rows:
  "growth_sales =
     [\<lparr>date = 738890, product_name = ''Shirt'', price = 100, quantity = 1, seller = ''A'',
        total_amount = 100\<rparr>,
      \<lparr>date = 738901, product_name = ''Saree'', price = 150, quantity = 1, seller = ''B'',
        total_amount = 150\<rparr>]"
  by (simp add: growth_sales_def add_transaction_def calendar_defs)

lemma daily_avg_computed:
  assumes "calculate_business_metrics today data = Inr (Some m)"
  shows "daily_avg m = sum_list (map total_amount (filter (\<lambda>r. date r \<ge> today - 7) data)) / 7"
  using metrics_fields(10) [OF assms] by (simp add: recent_data_def week_ago_def)

lemma growth_rate_computed:
  assumes "calculate_business_metrics today data = Inr (Some m)"
    and "\<forall>r \<in> set data. 0 \<le> total_amount r"
  shows "growth_rate m =
           (if last_week_revenue today data = 0 then 0
            else (this_week_revenue today data - last_week_revenue today data)
                   / last_week_revenue today data * 100)"
proof -
  have "0 \<le> sum_list (map total_amount (last_week_data today data))"
    using assms(2) by (intro sum_list_nonneg) (auto simp: last_week_data_def)
  then have "0 \<le> last_week_revenue today data" by (simp add: last_week_revenue_def)
  then show ?thesis using metrics_fields(11) [OF assms(1)] by auto
qed

text \<open>
  C4, evaluated on 2024-01-15. A single sale of 140 dated 2024-01-16 gives
  \<open>daily_avg = 20\<close>, although no record is dated on or before the evaluation day; a single
  sale of 70 dated 2024-01-08 gives \<open>daily_avg = 10\<close>, although no record is dated within
  the seven days 2024-01-09 to 2024-01-15. The claim's value is 0 in both cases: the
  window test \<^verbatim>\<open>date >= week_ago\<close> admits an eighth day and every later date.
\<close>

theorem daily_avg_outside_window:
  "(\<exists>m. calculate_business_metrics eval_day future_sale = Inr (Some m) \<and> daily_avg m = 20)
   \<and> filter (\<lambda>r. date r \<le> eval_day) future_sale = []
   \<and> (\<exists>m. calculate_business_metrics eval_day week_old_sale = Inr (Some m) \<and> daily_avg m = 10)
   \<and> filter (\<lambda>r. eval_day - 7 < date r \<and> date r \<le> eval_day) week_old_sale = []"
proof -
  obtain m where m: "calculate_business_metrics eval_day future_sale = Inr (Some m)"
    using metrics_defined [of future_sale eval_day] by (auto simp: future_sale_rows)
  have "daily_avg m = 20"
    using daily_avg_computed [OF m] by (simp add: future_sale_rows eval_day_ord)
  then have a: "\<exists>m. calculate_business_metrics eval_day future_sale = Inr (Some m) \<and> daily_avg m = 20"
    using m by blast
  obtain n where n: "calculate_business_metrics eval_day week_old_sale = Inr (Some n)"
    using metrics_defined [of week_old_sale eval_day] by (auto simp: week_old_sale_rows)
  have "daily_avg n = 10"
    using daily_avg_computed [OF n] by (simp add: week_old_sale_rows eval_day_ord)
  then have b: "\<exists>m. calculate_business_metrics eval_day week_old_sale = Inr (Some m) \<and> daily_avg m = 10"
    using n by blast
  have c: "filter (\<lambda>r. date r \<le> eval_day) future_sale = []"
    by (simp add: future_sale_rows eval_day_ord)
  have d: "filter (\<lambda>r. eval_day - 7 < date r \<and> date r \<le> eval_day) week_old_sale = []"
    by (simp add: week_old_sale_rows eval_day_ord)
  show ?thesis using a b c d by blast
qed

text \<open>
  C5, evaluated on 2024-01-15 with a sale of 100 dated 2024-01-05 and a sale of 150 dated
  2024-01-16. The code returns \<open>growth_rate = 50\<close>. The revenue of the prior window is
  100 and no record is dated within 2024-01-08 to 2024-01-15, so the trailing revenue is 0
  and the claim's formula gives -100: \<open>this_week_revenue\<close> is summed over the same
  unbounded window as \<open>daily_avg\<close>.
\<close>

theorem growth_rate_outside_window:
  "(\<exists>m. calculate_business_metrics eval_day growth_sales = Inr (Some m) \<and> growth_rate m = 50)
   \<and> sum_list (map total_amount
        (filter (\<lambda>r. eval_day - 14 \<le> date r \<and> date r < eval_day - 7) growth_sales)) = 100
   \<and> sum_list (map total_amount
        (filter (\<lambda>r. eval_day - 7 \<le> date r \<and> date r \<le> eval_day) growth_sales)) = 0
   \<and> ((0 - 100) / 100 * 100 :: rat) = - 100"
proof -
  obtain m where m: "calculate_business_metrics eval_day growth_sales = Inr (Some m)"
    using metrics_defined [of growth_sales eval_day] by (auto simp: growth_sales_rows)
  have "growth_rate m = 50"
    using metrics_fields(11) [OF m]
    by (simp add: growth_sales_rows eval_day_ord last_week_revenue_def this_week_revenue_def
          last_week_data_def recent_data_def week_ago_def last_week_start_def)
  then have a: "\<exists>m. calculate_business_metrics eval_day growth_sales = Inr (Some m)
                  \<and> growth_rate m = 50"
    using m by blast
  show ?thesis using a by (simp add: growth_sales_rows eval_day_ord)
qed

end
